theory Spec2Isabelle
  imports Complex_Main "HOL-Library.Char_ord" "HOL-Library.List_Lexorder"
begin

section \<open>Python values the tracker works with\<close>

text \<open>
  The exceptions that the modelled code can raise. Every one of them is raised inside
  a \<^verbatim>\<open>try\<close> block of \<^verbatim>\<open>project_tracker.py\<close> and ends as a printed message.
\<close>

datatype py_error =
    KeyError string
  | ValueError
  | AttributeError
  | JSONDecodeError
  | OSError

text \<open>
  Python compares strings by code point, position by position; this is the
  lexicographic order on \<^typ>\<open>string\<close> of \<^verbatim>\<open>List_Lexorder\<close> over the order of
  characters by their codes. Python dictionaries keep insertion order:
  \<^verbatim>\<open>d[k] = v\<close> overwrites the value of an existing key in place and appends a
  new key at the end. A dictionary is an association list with distinct keys.
\<close>

fun dict_set :: "'k \<Rightarrow> 'v \<Rightarrow> ('k \<times> 'v) list \<Rightarrow> ('k \<times> 'v) list" where
  "dict_set k v [] = [(k, v)]"
| "dict_set k v ((k', v') # kvs) =
     (if k' = k then (k, v) # kvs else (k', v') # dict_set k v kvs)"

definition dict_get :: "('k \<times> 'v) list \<Rightarrow> 'k \<Rightarrow> 'v option" where
  "dict_get d k = map_of d k"

definition dict_contains :: "'k \<Rightarrow> ('k \<times> 'v) list \<Rightarrow> bool" where
  "dict_contains k d = (dict_get d k \<noteq> None)"

definition dict_values :: "('k \<times> 'v) list \<Rightarrow> 'v list" where
  "dict_values d = map snd d"

definition get_default :: "'a option \<Rightarrow> 'a \<Rightarrow> 'a" where
  \<comment> \<open>\<^verbatim>\<open>d.get(key, default)\<close> on a key that may be absent (\<open>None\<close>).\<close>
  "get_default v dflt = (case v of Some x \<Rightarrow> x | None \<Rightarrow> dflt)"

text \<open>
  \<^verbatim>\<open>sorted(xs, key=f, reverse=True)\<close> and \<^verbatim>\<open>xs.sort(key=f, reverse=True)\<close>: a
  stable sort by descending key; elements with equal keys keep their order.
\<close>

definition sorted_reverse :: "('a \<Rightarrow> 'k::linorder) \<Rightarrow> 'a list \<Rightarrow> 'a list" where
  "sorted_reverse f xs = rev (sort_key f (rev xs))"


section \<open>The data model\<close>

text \<open>
  A contribution is a dictionary with the keys \<^verbatim>\<open>repo_name\<close>, \<^verbatim>\<open>type\<close>,
  \<^verbatim>\<open>description\<close>, \<^verbatim>\<open>pr_number\<close> and \<^verbatim>\<open>date\<close>. The tracker reads it with
  \<^verbatim>\<open>.get(key, default)\<close>, so every key may be absent (\<open>None\<close>); an absent and a
  null \<^verbatim>\<open>pr_number\<close> are not told apart. Dates are ISO strings.
\<close>

record contribution =
  repo_name :: "string option"
  ctype :: "string option"
  description :: "string option"
  pr_number :: "int option"
  date :: "string option"

text \<open>
  \<^verbatim>\<open>datetime\<close> is the standard library's: the model takes the type \<open>'d\<close> of its
  values and the two conversions the tracker calls as parameters.
  \<^verbatim>\<open>datetime.fromisoformat\<close> raises \<^verbatim>\<open>ValueError\<close> on a string it cannot read
  (\<open>None\<close>).
\<close>

record 'd datetime_lib =
  isoformat :: "'d \<Rightarrow> string"
  fromisoformat :: "string \<Rightarrow> 'd option"

record 'd contributor =
  name :: string
  github_username :: string
  email :: string
  joined_date :: 'd
  contributions :: "contribution list"

text \<open>
  The persisted JSON document
  \<^verbatim>\<open>{project_name, created_date, contributors: {username: {name, github_username,
  email, joined_date, contributions: [...]}}}\<close>. Every key may be absent, since
  \<^verbatim>\<open>load_data\<close> tests for it or reads it with a default; the values have the types
  of the schema.
\<close>

record contributor_data =
  data_name :: "string option"
  data_github_username :: "string option"
  data_email :: "string option"
  data_joined_date :: "string option"
  data_contributions :: "contribution list option"

record document =
  doc_project_name :: "string option"
  doc_created_date :: "string option"
  doc_contributors :: "(string \<times> contributor_data) list option"

text \<open>
  What \<^verbatim>\<open>json.load\<close> finds in a file: text that is not JSON, JSON that is not an
  object (a list, a number), or a document.
\<close>

datatype file_content = Malformed | NotAnObject | Doc document

datatype printed = ErrorSaving py_error | ErrorLoading py_error

datatype notification =
    Welcome string string string
  | Milestone string string nat bool

text \<open>
  The world outside the tracker: the files by path (\<open>None\<close>: no such file), which
  paths can be opened for writing, what was printed, the e-mails handed to the
  notifier, and the clock that \<^verbatim>\<open>datetime.now()\<close> reads (reading advances it).
\<close>

record 'd world =
  files :: "string \<Rightarrow> file_content option"
  writable :: "string \<Rightarrow> bool"
  console :: "printed list"
  outbox :: "notification list"
  clock :: "nat \<Rightarrow> 'd"
  ticks :: nat

definition datetime_now :: "'d world \<Rightarrow> 'd \<times> 'd world" where
  "datetime_now w = (clock w (ticks w), w\<lparr>ticks := Suc (ticks w)\<rparr>)"

definition print_line :: "printed \<Rightarrow> 'd world \<Rightarrow> 'd world" where
  "print_line msg w = w\<lparr>console := console w @ [msg]\<rparr>"

record smtp_config =
  smtp_server :: "string option"
  sender_email :: "string option"
  sender_password :: "string option"

record 'd tracker =
  project_name :: string
  data_file :: string
  contributors :: "(string \<times> 'd contributor) list"
  created_date :: 'd
  enable_notifications :: bool
  notifier :: "smtp_config option"

section \<open>The Contributor class\<close>

text \<open>
  Modelled from the spec: \<^verbatim>\<open>contributor.py\<close> (the class \<^verbatim>\<open>Contributor\<close>) is not
  among the sources. The spec gives a Contributor as \<^verbatim>\<open>{name, github_username,
  email, joined_date, contributions}\<close>, created with no contributions.
\<close>

definition Contributor ::
  "string \<Rightarrow> string \<Rightarrow> string \<Rightarrow> 'd world \<Rightarrow> 'd contributor \<times> 'd world" where
  "Contributor n u e w =
     (let (d, w') = datetime_now w
      in (\<lparr>name = n, github_username = u, email = e, joined_date = d, contributions = []\<rparr>, w'))"

text \<open>
  Modelled from the spec: \<^verbatim>\<open>Contributor.get_contribution_count\<close>, the number of
  contribution records the contributor owns.
\<close>

definition get_contribution_count :: "'d contributor \<Rightarrow> nat" where
  "get_contribution_count c = length (contributions c)"

text \<open>
  Modelled from the spec: \<^verbatim>\<open>Contributor.is_hacktoberfest_complete\<close>; the spec has
  ``Hacktoberfest complete: true iff contribution count \<open>\<ge> 4\<close>''.
\<close>

definition is_hacktoberfest_complete :: "'d contributor \<Rightarrow> bool" where
  "is_hacktoberfest_complete c = (get_contribution_count c \<ge> 4)"

text \<open>
  Modelled from the spec: \<^verbatim>\<open>Contributor.add_contribution\<close>; a Contribution is
  \<^verbatim>\<open>{repo_name, type, description, pr_number, date}\<close>, appended to the ordered
  sequence and dated at the time of the call.
\<close>

definition Contributor_add_contribution ::
  "'d datetime_lib \<Rightarrow> string \<Rightarrow> string \<Rightarrow> string \<Rightarrow> int option \<Rightarrow> 'd contributor \<Rightarrow> 'd world
     \<Rightarrow> 'd contributor \<times> 'd world" where
  "Contributor_add_contribution dt repo ty desc pr c w =
     (let (d, w') = datetime_now w
      in (c\<lparr>contributions := contributions c @
            [\<lparr>repo_name = Some repo, ctype = Some ty, description = Some desc,
              pr_number = pr, date = Some (isoformat dt d)\<rparr>]\<rparr>, w'))"

text \<open>
  Modelled from the spec: \<^verbatim>\<open>Contributor.to_dict\<close>, the persisted form
  \<^verbatim>\<open>{name, github_username, email, joined_date, contributions: [...]}\<close> of a
  contributor.
\<close>

definition to_dict :: "'d datetime_lib \<Rightarrow> 'd contributor \<Rightarrow> contributor_data" where
  "to_dict dt c =
     \<lparr>data_name = Some (name c), data_github_username = Some (github_username c),
      data_email = Some (email c), data_joined_date = Some (isoformat dt (joined_date c)),
      data_contributions = Some (contributions c)\<rparr>"

section \<open>ProjectTracker: persistence\<close>

definition save_data :: "'d datetime_lib \<Rightarrow> 'd tracker \<Rightarrow> 'd world \<Rightarrow> 'd world" where
  "save_data dt t w =
     (let data = \<lparr>doc_project_name = Some (project_name t),
                  doc_created_date = Some (isoformat dt (created_date t)),
                  doc_contributors =
                    Some (map (\<lambda>(username, contrib). (username, to_dict dt contrib)) (contributors t))\<rparr>
      in if writable w (data_file t)
         then w\<lparr>files := (files w)(data_file t \<mapsto> Doc data)\<rparr>
         else print_line (ErrorSaving OSError) w)"

text \<open>
  The body of the loop of \<^verbatim>\<open>load_data\<close> for one item of the file's
  \<^verbatim>\<open>contributors\<close>. A missing \<^verbatim>\<open>name\<close> or \<^verbatim>\<open>github_username\<close> raises
  \<^verbatim>\<open>KeyError\<close> before the constructor runs; a \<^verbatim>\<open>joined_date\<close> that is not an ISO
  date raises \<^verbatim>\<open>ValueError\<close> after it.
\<close>

definition load_contributor ::
  "'d datetime_lib \<Rightarrow> string \<Rightarrow> contributor_data \<Rightarrow> 'd tracker \<Rightarrow> 'd world
     \<Rightarrow> (py_error + 'd tracker) \<times> 'd world" where
  "load_contributor dt username contrib_data t w =
     (case data_name contrib_data of
        None \<Rightarrow> (Inl (KeyError ''name''), w)
      | Some n \<Rightarrow>
         (case data_github_username contrib_data of
            None \<Rightarrow> (Inl (KeyError ''github_username''), w)
          | Some u \<Rightarrow>
             (let (c, w') = Contributor n u (get_default (data_email contrib_data) '''') w;
                  joined = (case data_joined_date contrib_data of
                              None \<Rightarrow> Some (joined_date c)
                            | Some s \<Rightarrow> fromisoformat dt s)
              in case joined of
                   None \<Rightarrow> (Inl ValueError, w')
                 | Some j \<Rightarrow>
                     (Inr (t\<lparr>contributors :=
                              dict_set username
                                (c\<lparr>joined_date := j,
                                   contributions := get_default (data_contributions contrib_data) []\<rparr>)
                                (contributors t)\<rparr>), w'))))"

text \<open>The loop: the first exception leaves it, with the entries loaded so far kept.\<close>

fun load_contributors ::
  "'d datetime_lib \<Rightarrow> (string \<times> contributor_data) list \<Rightarrow> 'd tracker \<Rightarrow> 'd world
     \<Rightarrow> (py_error option \<times> 'd tracker) \<times> 'd world" where
  "load_contributors dt [] t w = ((None, t), w)"
| "load_contributors dt ((username, contrib_data) # items) t w =
     (case load_contributor dt username contrib_data t w of
        (Inl e, w') \<Rightarrow> ((Some e, t), w')
      | (Inr t', w') \<Rightarrow> load_contributors dt items t' w')"

definition load_document ::
  "'d datetime_lib \<Rightarrow> document \<Rightarrow> 'd tracker \<Rightarrow> 'd world
     \<Rightarrow> (py_error option \<times> 'd tracker) \<times> 'd world" where
  "load_document dt data t w =
     (let t1 = t\<lparr>project_name := get_default (doc_project_name data) (project_name t)\<rparr>
      in case doc_created_date data of
           None \<Rightarrow> load_contributors dt (get_default (doc_contributors data) []) t1 w
         | Some s \<Rightarrow>
            (case fromisoformat dt s of
               None \<Rightarrow> ((Some ValueError, t1), w)
             | Some d \<Rightarrow>
                 load_contributors dt (get_default (doc_contributors data) [])
                   (t1\<lparr>created_date := d\<rparr>) w))"

definition load_data :: "'d datetime_lib \<Rightarrow> 'd tracker \<Rightarrow> 'd world \<Rightarrow> 'd tracker \<times> 'd world" where
  "load_data dt t w =
     (case files w (data_file t) of
        None \<Rightarrow> (t, w)
      | Some Malformed \<Rightarrow> (t, print_line (ErrorLoading JSONDecodeError) w)
      | Some NotAnObject \<Rightarrow> (t, print_line (ErrorLoading AttributeError) w)
      | Some (Doc data) \<Rightarrow>
         (case load_document dt data t w of
            ((None, t'), w') \<Rightarrow> (t', w')
          | ((Some e, t'), w') \<Rightarrow> (t', print_line (ErrorLoading e) w')))"

text \<open>
  The constructor: an empty collection, created now, then \<^verbatim>\<open>load_data\<close>. The
  stateless collaborators (metrics, search, backup, repository statistics) hold
  nothing the modelled operations read.
\<close>

definition ProjectTracker ::
  "'d datetime_lib \<Rightarrow> string \<Rightarrow> string \<Rightarrow> bool \<Rightarrow> smtp_config \<Rightarrow> 'd world \<Rightarrow> 'd tracker \<times> 'd world" where
  "ProjectTracker dt pname dfile enable smtp w =
     (let (d, w') = datetime_now w
      in load_data dt
           \<lparr>project_name = pname, data_file = dfile, contributors = [], created_date = d,
            enable_notifications = enable,
            notifier = (if enable then Some smtp else None)\<rparr> w')"

section \<open>ProjectTracker: contributors and contributions\<close>

text \<open>
  Modelled from the spec: \<^verbatim>\<open>email_notifier.py\<close> is not among the sources; delivery
  is an external collaborator, and a send is recorded in the outbox.
\<close>

definition send_notification :: "notification \<Rightarrow> 'd world \<Rightarrow> 'd world" where
  "send_notification n w = w\<lparr>outbox := outbox w @ [n]\<rparr>"

definition add_contributor ::
  "'d datetime_lib \<Rightarrow> string \<Rightarrow> string \<Rightarrow> string \<Rightarrow> 'd tracker \<Rightarrow> 'd world
     \<Rightarrow> 'd contributor \<times> 'd tracker \<times> 'd world" where
  "add_contributor dt n username e t w =
     (case dict_get (contributors t) username of
        Some existing \<Rightarrow> (existing, t, w)
      | None \<Rightarrow>
         (let (c, w1) = Contributor n username e w;
              t' = t\<lparr>contributors := dict_set username c (contributors t)\<rparr>;
              w2 = (if notifier t \<noteq> None \<and> e \<noteq> '''' then send_notification (Welcome e n username) w1
                    else w1)
          in (c, t', save_data dt t' w2)))"

definition get_contributor :: "'d tracker \<Rightarrow> string \<Rightarrow> 'd contributor option" where
  "get_contributor t username = dict_get (contributors t) username"

definition add_contribution ::
  "'d datetime_lib \<Rightarrow> string \<Rightarrow> string \<Rightarrow> string \<Rightarrow> string \<Rightarrow> int option \<Rightarrow> 'd tracker \<Rightarrow> 'd world
     \<Rightarrow> bool \<times> 'd tracker \<times> 'd world" where
  "add_contribution dt username repo ty desc pr t w =
     (case get_contributor t username of
        None \<Rightarrow> (False, t, w)
      | Some c \<Rightarrow>
         (let (c', w1) = Contributor_add_contribution dt repo ty desc pr c w;
              t' = t\<lparr>contributors := dict_set username c' (contributors t)\<rparr>;
              w2 = (if notifier t \<noteq> None \<and> email c' \<noteq> ''''
                    then (let contribution_count = get_contribution_count c';
                              is_complete = is_hacktoberfest_complete c'
                          in if contribution_count mod 1 = 0
                             then send_notification
                                    (Milestone (email c') username contribution_count is_complete) w1
                             else w1)
                    else w1)
          in (True, t', save_data dt t' w2)))"

definition get_all_contributors :: "'d tracker \<Rightarrow> 'd contributor list" where
  "get_all_contributors t = dict_values (contributors t)"

definition get_completed_contributors :: "'d tracker \<Rightarrow> 'd contributor list" where
  "get_completed_contributors t = filter is_hacktoberfest_complete (dict_values (contributors t))"

section \<open>ProjectTracker: analytics\<close>

record leaderboard_entry =
  entry_name :: string
  entry_github_username :: string
  entry_email :: string
  contribution_count :: nat
  unique_repositories :: nat
  latest_contribution :: "string option"
  entry_joined_date :: "string option"

text \<open>
  The inner loop of \<^verbatim>\<open>get_leaderboard\<close> over one contributor's contributions:
  the set of repository names and the greatest date seen. \<^verbatim>\<open>not latest_contribution\<close>
  holds for \<^verbatim>\<open>None\<close> and for the empty string.
\<close>

fun leaderboard_scan ::
  "contribution list \<Rightarrow> string set \<Rightarrow> string option \<Rightarrow> string set \<times> string option" where
  "leaderboard_scan [] unique_repos latest = (unique_repos, latest)"
| "leaderboard_scan (c # cs) unique_repos latest =
     (let contrib_date = get_default (date c) ''''
      in leaderboard_scan cs
           (insert (get_default (repo_name c) '''') unique_repos)
           (case latest of
              None \<Rightarrow> Some contrib_date
            | Some l \<Rightarrow> if l = '''' \<or> contrib_date > l then Some contrib_date else Some l))"

text \<open>
  The dictionary appended for one contributor. A \<^verbatim>\<open>datetime\<close> is never falsy, so
  \<^verbatim>\<open>joined_date\<close> is always the ISO text.
\<close>

definition leaderboard_entry_of :: "'d datetime_lib \<Rightarrow> 'd contributor \<Rightarrow> leaderboard_entry" where
  "leaderboard_entry_of dt c =
     (let (unique_repos, latest) = leaderboard_scan (contributions c) {} None
      in \<lparr>entry_name = name c,
          entry_github_username = github_username c,
          entry_email = email c,
          contribution_count = get_contribution_count c,
          unique_repositories = card unique_repos,
          latest_contribution = latest,
          entry_joined_date = Some (isoformat dt (joined_date c))\<rparr>)"

definition get_leaderboard :: "'d datetime_lib \<Rightarrow> 'd tracker \<Rightarrow> leaderboard_entry list" where
  "get_leaderboard dt t =
     sorted_reverse contribution_count
       (map (leaderboard_entry_of dt) (dict_values (contributors t)))"

text \<open>
  \<^verbatim>\<open>completion_rate\<close> is a text: the literal \<^verbatim>\<open>"0%"\<close> for no contributors, else
  the percentage printed with one decimal (kept here as the exact number that is
  printed). The average is a quotient, or the integer 0 for no contributors.
\<close>

datatype percent_text = ZeroPercent | OneDecimal rat

record project_stats =
  stats_project_name :: string
  total_contributors :: nat
  total_contributions :: nat
  completed_hacktoberfest :: nat
  completion_rate :: percent_text
  avg_contributions_per_contributor :: rat
  stats_unique_repositories :: nat
  contributions_by_type :: "(string \<times> nat) list"
  stats_created_date :: string

text \<open>The two nested loops of \<^verbatim>\<open>get_project_stats\<close>.\<close>

fun stats_scan ::
  "contribution list \<Rightarrow> (string \<times> nat) list \<Rightarrow> string set \<Rightarrow> (string \<times> nat) list \<times> string set" where
  "stats_scan [] by_type unique_repos = (by_type, unique_repos)"
| "stats_scan (c # cs) by_type unique_repos =
     (let contrib_type = get_default (ctype c) ''unknown''
      in stats_scan cs
           (dict_set contrib_type (get_default (dict_get by_type contrib_type) 0 + 1) by_type)
           (insert (get_default (repo_name c) '''') unique_repos))"

fun stats_scan_all ::
  "'d contributor list \<Rightarrow> (string \<times> nat) list \<Rightarrow> string set \<Rightarrow> (string \<times> nat) list \<times> string set" where
  "stats_scan_all [] by_type unique_repos = (by_type, unique_repos)"
| "stats_scan_all (c # cs) by_type unique_repos =
     (let (by_type', unique_repos') = stats_scan (contributions c) by_type unique_repos
      in stats_scan_all cs by_type' unique_repos')"

definition get_project_stats :: "'d datetime_lib \<Rightarrow> 'd tracker \<Rightarrow> project_stats" where
  "get_project_stats dt t =
     (let cs = get_all_contributors t;
          total = sum_list (map get_contribution_count cs);
          completed_count = length (get_completed_contributors t);
          (by_type, unique_repos) = stats_scan_all cs [] {}
      in \<lparr>stats_project_name = project_name t,
          total_contributors = length cs,
          total_contributions = total,
          completed_hacktoberfest = completed_count,
          completion_rate =
            (if cs \<noteq> [] then OneDecimal (of_nat completed_count / of_nat (length cs) * 100)
             else ZeroPercent),
          avg_contributions_per_contributor =
            (if cs \<noteq> [] then of_nat total / of_nat (length cs) else 0),
          stats_unique_repositories = card unique_repos,
          contributions_by_type = by_type,
          stats_created_date = isoformat dt (created_date t)\<rparr>)"

section \<open>Objects and references\<close>


record 'd pydict = contribution +
  contributor :: "'d contributor option"

















section \<open>The engagement score\<close>

text \<open>
  Modelled from the spec: \<^verbatim>\<open>performance_metrics.py\<close> is not among the sources. The
  spec has the engagement score as a ``weighted combination of contribution count,
  streak length, and recency'', with the weights a policy choice kept as
  configurable constants, and a streak as the ``count of consecutive calendar days
  with at least one contribution''. The weights, the calendar day \<open>day_of\<close> of an
  ISO date and the measure \<open>recency_of\<close> of the latest contribution date are
  parameters.
\<close>

record score_weights =
  weight_count :: rat
  weight_streak :: rat
  weight_recency :: rat

fun longest_run :: "nat list \<Rightarrow> nat \<Rightarrow> nat \<Rightarrow> nat \<Rightarrow> nat" where
  "longest_run [] prev cur best = best"
| "longest_run (d # ds) prev cur best =
     (let cur' = (if d = Suc prev then Suc cur else 1)
      in longest_run ds d cur' (max best cur'))"

definition longest_streak :: "(string \<Rightarrow> nat option) \<Rightarrow> 'd contributor \<Rightarrow> nat" where
  "longest_streak day_of c =
     (case sort (remdups (List.map_filter day_of (List.map_filter date (contributions c)))) of
        [] \<Rightarrow> 0
      | d # ds \<Rightarrow> longest_run ds d 1 1)"

definition latest_date :: "'d contributor \<Rightarrow> string option" where
  "latest_date c =
     (case List.map_filter date (contributions c) of
        [] \<Rightarrow> None
      | d # ds \<Rightarrow> Some (fold max ds d))"

definition engagement_score ::
  "score_weights \<Rightarrow> (string \<Rightarrow> nat option) \<Rightarrow> (string option \<Rightarrow> rat) \<Rightarrow> 'd contributor \<Rightarrow> rat" where
  "engagement_score wts day_of recency_of c =
     weight_count wts * of_nat (get_contribution_count c)
     + weight_streak wts * of_nat (longest_streak day_of c)
     + weight_recency wts * recency_of (latest_date c)"

text \<open>
  The leaderboard read as a list of engagement scores: each entry stands for the
  contributor registered under its \<^verbatim>\<open>github_username\<close>.
\<close>

definition leaderboard_scores ::
  "score_weights \<Rightarrow> (string \<Rightarrow> nat option) \<Rightarrow> (string option \<Rightarrow> rat) \<Rightarrow> 'd datetime_lib
     \<Rightarrow> 'd tracker \<Rightarrow> rat list" where
  "leaderboard_scores wts day_of recency_of dt t =
     map (\<lambda>e. case get_contributor t (entry_github_username e) of
                 Some c \<Rightarrow> engagement_score wts day_of recency_of c
               | None \<Rightarrow> 0)
       (get_leaderboard dt t)"

section \<open>Sequences of calls\<close>

text \<open>A sequence of \<^verbatim>\<open>add_contributor(name, github_username, email)\<close> calls.\<close>

fun add_contributors ::
  "'d datetime_lib \<Rightarrow> (string \<times> string \<times> string) list \<Rightarrow> 'd tracker \<Rightarrow> 'd world
     \<Rightarrow> 'd tracker \<times> 'd world" where
  "add_contributors dt [] t w = (t, w)"
| "add_contributors dt ((n, username, e) # calls) t w =
     (case add_contributor dt n username e t w of
        (c, t', w') \<Rightarrow> add_contributors dt calls t' w')"

section \<open>A calendar and sample states\<close>

text \<open>
  A \<^verbatim>\<open>datetime\<close> library for the examples: a datetime is its ISO text, read by its
  first ten characters \<^verbatim>\<open>YYYY-MM-DD\<close>; the day number is the proleptic Gregorian
  ordinal, as \<^verbatim>\<open>date.toordinal\<close> counts it.
\<close>

definition digit_value :: "char \<Rightarrow> nat option" where
  "digit_value c =
     (let n = (of_char c :: nat) in if 48 \<le> n \<and> n \<le> 57 then Some (n - 48) else None)"

fun digits_value :: "string \<Rightarrow> nat \<Rightarrow> nat option" where
  "digits_value [] acc = Some acc"
| "digits_value (c # cs) acc =
     (case digit_value c of None \<Rightarrow> None | Some n \<Rightarrow> digits_value cs (10 * acc + n))"

definition is_leap :: "nat \<Rightarrow> bool" where
  "is_leap y = (y mod 4 = 0 \<and> (y mod 100 \<noteq> 0 \<or> y mod 400 = 0))"

definition month_lengths :: "nat \<Rightarrow> nat list" where
  "month_lengths y =
     [31, if is_leap y then 29 else 28, 31, 30, 31, 30, 31, 31, 30, 31, 30, 31]"

definition days_in_month :: "nat \<Rightarrow> nat \<Rightarrow> nat" where
  "days_in_month y m = month_lengths y ! (m - 1)"

definition to_ordinal :: "nat \<Rightarrow> nat \<Rightarrow> nat \<Rightarrow> nat" where
  "to_ordinal y m d =
     (y - 1) * 365 + (y - 1) div 4 - (y - 1) div 100 + (y - 1) div 400
     + sum_list (take (m - 1) (month_lengths y)) + d"

definition iso_day :: "string \<Rightarrow> nat option" where
  "iso_day s =
     (if length s < 10 \<or> s ! 4 \<noteq> CHR ''-'' \<or> s ! 7 \<noteq> CHR ''-'' then None
      else case (digits_value (take 4 s) 0, digits_value (take 2 (drop 5 s)) 0,
                 digits_value (take 2 (drop 8 s)) 0) of
             (Some y, Some m, Some d) \<Rightarrow>
               (if 1 \<le> y \<and> 1 \<le> m \<and> m \<le> 12 \<and> 1 \<le> d \<and> d \<le> days_in_month y m
                then Some (to_ordinal y m d) else None)
           | _ \<Rightarrow> None)"

definition example_lib :: "string datetime_lib" where
  "example_lib =
     \<lparr>isoformat = (\<lambda>d. d),
      fromisoformat = (\<lambda>s. if iso_day s = None then None else Some s)\<rparr>"

definition example_world :: "string world" where
  "example_world =
     \<lparr>files = (\<lambda>path. None), writable = (\<lambda>path. True), console = [], outbox = [],
      clock = (\<lambda>n. ''2025-10-05T12:00:00''), ticks = 0\<rparr>"

definition contribution_on :: "string \<Rightarrow> string \<Rightarrow> contribution" where
  "contribution_on repo day =
     \<lparr>repo_name = Some repo, ctype = Some ''code'', description = Some ''fix'',
      pr_number = None, date = Some day\<rparr>"

definition alice :: "string contributor" where
  "alice =
     \<lparr>name = ''Alice'', github_username = ''alice'', email = ''alice@example.org'',
      joined_date = ''2025-10-01T08:00:00'',
      contributions = [contribution_on ''docs'' ''2025-10-01T09:00:00'',
                       contribution_on ''docs'' ''2025-10-03T09:00:00'']\<rparr>"

definition bob :: "string contributor" where
  "bob =
     \<lparr>name = ''Bob'', github_username = ''bob'', email = '''',
      joined_date = ''2025-10-02T08:00:00'',
      contributions = [contribution_on ''core'' ''2025-10-02T09:00:00'',
                       contribution_on ''tools'' ''2025-10-03T09:00:00'']\<rparr>"

definition example_tracker :: "string tracker" where
  "example_tracker =
     \<lparr>project_name = ''Hacktoberfest 2025'', data_file = ''contributors.json'',
      contributors = [(''alice'', alice), (''bob'', bob)],
      created_date = ''2025-09-30T00:00:00'',
      enable_notifications = False, notifier = None\<rparr>"

definition example_weights :: score_weights where
  "example_weights = \<lparr>weight_count = 1, weight_streak = 1, weight_recency = 1\<rparr>"

definition example_recency :: "string option \<Rightarrow> rat" where
  "example_recency latest =
     (case latest of
        None \<Rightarrow> 0
      | Some s \<Rightarrow> (case iso_day s of None \<Rightarrow> 0 | Some d \<Rightarrow> of_nat d))"

section \<open>What a load is expected to do\<close>







section \<open>Fresh objects\<close>


section \<open>Dictionaries\<close>

lemma dict_set_keys:
  "map fst (dict_set k v d) = (if k \<in> fst ` set d then map fst d else map fst d @ [k])"
  by (induction d) (auto simp: rev_image_eqI)

lemma dict_set_distinct: "distinct (map fst d) \<Longrightarrow> distinct (map fst (dict_set k v d))"
  by (simp add: dict_set_keys)

lemma dict_get_dict_set:
  "dict_get (dict_set k v d) k' = (if k' = k then Some v else dict_get d k')"
  by (induction d) (auto simp: dict_get_def)

lemma dict_get_None_iff: "dict_get d k = None \<longleftrightarrow> k \<notin> fst ` set d"
  by (simp add: dict_get_def map_of_eq_None_iff)

lemma dict_get_member:
  "distinct (map fst d) \<Longrightarrow> (k, v) \<in> set d \<Longrightarrow> dict_get d k = Some v"
  by (simp add: dict_get_def)

lemma dict_set_fresh: "k \<notin> fst ` set d \<Longrightarrow> dict_set k v d = d @ [(k, v)]"
  by (induction d) auto

lemma distinct_keys_at_most_one:
  "distinct (map fst d) \<Longrightarrow> length (filter (\<lambda>p. fst p = u) d) \<le> 1"
proof (induction d)
  case Nil
  then show ?case by simp
next
  case (Cons p d)
  show ?case
  proof (cases "fst p = u")
    case True
    with Cons.prems have "u \<notin> fst ` set d" by auto
    then have "filter (\<lambda>p. fst p = u) d = []"
      by (auto simp: filter_empty_conv)
    with True show ?thesis by simp
  next
    case False
    with Cons show ?thesis by simp
  qed
qed

section \<open>Completion\<close>

lemma is_hacktoberfest_complete_eq:
  "is_hacktoberfest_complete = (\<lambda>c. 4 \<le> get_contribution_count c)"
  by (rule ext) (simp add: is_hacktoberfest_complete_def)

text \<open>
  C3: a contributor is Hacktoberfest-complete, and is listed by
  \<^verbatim>\<open>get_completed_contributors\<close>, exactly when they have at least 4 contributions.
  The list is the values of the contributor mapping that hold 4 or more contribution
  records, in the mapping's order; a contributor is in it exactly when the mapping
  has them under some username and they hold at least 4 records. The completion flag
  is true exactly from 4 records on: four records complete, three do not, and a
  mapping with one contributor of each kind lists the first alone.
\<close>

theorem completed_iff_at_least_four:
  "get_completed_contributors t =
     map snd (filter (\<lambda>(username, c). 4 \<le> length (contributions c)) (contributors t))
   \<and> (c \<in> set (get_completed_contributors t) \<longleftrightarrow>
        (\<exists>username. (username, c) \<in> set (contributors t)) \<and> 4 \<le> length (contributions c))
   \<and> get_completed_contributors t =
       filter (\<lambda>c. 4 \<le> get_contribution_count c) (get_all_contributors t)
   \<and> get_all_contributors t = map snd (contributors t)
   \<and> get_contribution_count c = length (contributions c)
   \<and> (is_hacktoberfest_complete c \<longleftrightarrow> 4 \<le> length (contributions c))
   \<and> is_hacktoberfest_complete (c\<lparr>contributions := [k1, k2, k3, k4]\<rparr>)
   \<and> \<not> is_hacktoberfest_complete (c\<lparr>contributions := [k1, k2, k3]\<rparr>)
   \<and> get_completed_contributors
        (t\<lparr>contributors := [(u1, c\<lparr>contributions := [k1, k2, k3, k4]\<rparr>),
                            (u2, c\<lparr>contributions := [k1, k2, k3]\<rparr>)]\<rparr>)
       = [c\<lparr>contributions := [k1, k2, k3, k4]\<rparr>]"
proof -
  have listed: "get_completed_contributors t =
      map snd (filter (\<lambda>(username, c). 4 \<le> length (contributions c)) (contributors t))"
    by (simp add: get_completed_contributors_def dict_values_def is_hacktoberfest_complete_eq
        get_contribution_count_def filter_map comp_def case_prod_unfold)
  have member: "c \<in> set (get_completed_contributors t) \<longleftrightarrow>
      (\<exists>username. (username, c) \<in> set (contributors t)) \<and> 4 \<le> length (contributions c)"
    unfolding listed by force
  show ?thesis
    using listed member
    by (simp add: get_all_contributors_def dict_values_def is_hacktoberfest_complete_eq
        get_contribution_count_def get_completed_contributors_def)
qed

section \<open>Unknown usernames\<close>

text \<open>
  C7: for a username that is not registered, \<^verbatim>\<open>get_contributor\<close> returns
  \<^verbatim>\<open>None\<close> and \<^verbatim>\<open>add_contribution\<close> returns \<^verbatim>\<open>False\<close>; neither raises, and
  \<^verbatim>\<open>add_contribution\<close> leaves the tracker and the world as they were.
\<close>

theorem unknown_username_not_raised:
  assumes "username \<notin> fst ` set (contributors t)"
  shows "get_contributor t username = None
       \<and> add_contribution dt username repo ty desc pr t w = (False, t, w)"
proof -
  have "dict_get (contributors t) username = None"
    using assms by (simp add: dict_get_None_iff)
  then show ?thesis
    by (simp add: get_contributor_def add_contribution_def)
qed

theorem unknown_username_not_raised_witness:
  "''carol'' \<notin> fst ` set (contributors example_tracker)
   \<and> get_contributor example_tracker ''carol'' = None
   \<and> add_contribution example_lib ''carol'' ''docs'' ''code'' ''typo'' (Some 7)
        example_tracker example_world = (False, example_tracker, example_world)"
proof -
  have h: "''carol'' \<notin> fst ` set (contributors example_tracker)"
    by (simp add: example_tracker_def)
  from unknown_username_not_raised [OF h] h show ?thesis by simp
qed

section \<open>Loading a missing or malformed file\<close>

text \<open>
  C6: \<^verbatim>\<open>load_data\<close> on a missing data file changes nothing; on a file that is
  not JSON it prints the error, raises nothing and leaves the tracker as it was, so
  the collection of a tracker under construction stays empty.
\<close>

theorem load_data_missing_or_malformed:
  "(files w (data_file t) = None \<longrightarrow> load_data dt t w = (t, w))
   \<and> (files w (data_file t) = Some Malformed \<longrightarrow>
        load_data dt t w = (t, print_line (ErrorLoading JSONDecodeError) w))
   \<and> (files w dfile = Some Malformed \<longrightarrow>
        contributors (fst (ProjectTracker dt pname dfile enable smtp w)) = []
        \<and> console (snd (ProjectTracker dt pname dfile enable smtp w))
            = console w @ [ErrorLoading JSONDecodeError])"
  by (simp add: load_data_def ProjectTracker_def datetime_now_def print_line_def)

theorem load_data_missing_or_malformed_witness:
  "files example_world (data_file example_tracker) = None
   \<and> load_data example_lib example_tracker example_world = (example_tracker, example_world)
   \<and> files (example_world\<lparr>files := (\<lambda>p. Some Malformed)\<rparr>) (data_file example_tracker)
       = Some Malformed
   \<and> load_data example_lib example_tracker (example_world\<lparr>files := (\<lambda>p. Some Malformed)\<rparr>)
       = (example_tracker,
          print_line (ErrorLoading JSONDecodeError)
            (example_world\<lparr>files := (\<lambda>p. Some Malformed)\<rparr>))
   \<and> contributors (fst (ProjectTracker example_lib ''Hacktoberfest 2025'' ''contributors.json''
        False \<lparr>smtp_server = None, sender_email = None, sender_password = None\<rparr>
        (example_world\<lparr>files := (\<lambda>p. Some Malformed)\<rparr>))) = []"
proof -
  have a: "files example_world (data_file example_tracker) = None"
    by (simp add: example_world_def)
  have b: "files (example_world\<lparr>files := (\<lambda>p. Some Malformed)\<rparr>) (data_file example_tracker)
             = Some Malformed"
    by simp
  have c: "files (example_world\<lparr>files := (\<lambda>p. Some Malformed)\<rparr>) ''contributors.json''
             = Some Malformed"
    by simp
  show ?thesis
    using a b c
      load_data_missing_or_malformed [of example_world example_tracker example_lib]
      load_data_missing_or_malformed [of "example_world\<lparr>files := (\<lambda>p. Some Malformed)\<rparr>"
        example_tracker example_lib "''contributors.json''" "''Hacktoberfest 2025''" False
        "\<lparr>smtp_server = None, sender_email = None, sender_password = None\<rparr>"]
    by simp
qed

section \<open>Statistics of an empty collection\<close>

lemma stats_scan_all_Nil: "stats_scan_all [] by_type unique_repos = (by_type, unique_repos)"
  by simp

text \<open>
  C8: on an empty contributor collection \<^verbatim>\<open>get_project_stats\<close> returns (it is a
  total function: nothing is raised, no division by zero is taken) and every
  aggregate is zero: no contributors, no contributions, none completed, the rate
  \<^verbatim>\<open>"0%"\<close>, the average 0, no repositories, no contribution types.
\<close>

theorem get_project_stats_empty:
  assumes "contributors t = []"
  shows "get_project_stats dt t =
     \<lparr>stats_project_name = project_name t,
      total_contributors = 0,
      total_contributions = 0,
      completed_hacktoberfest = 0,
      completion_rate = ZeroPercent,
      avg_contributions_per_contributor = 0,
      stats_unique_repositories = 0,
      contributions_by_type = [],
      stats_created_date = isoformat dt (created_date t)\<rparr>"
  using assms
  by (simp add: get_project_stats_def get_all_contributors_def get_completed_contributors_def
      dict_values_def)

theorem get_project_stats_empty_witness:
  "contributors (example_tracker\<lparr>contributors := []\<rparr>) = []
   \<and> get_project_stats example_lib (example_tracker\<lparr>contributors := []\<rparr>) =
     \<lparr>stats_project_name = ''Hacktoberfest 2025'',
      total_contributors = 0,
      total_contributions = 0,
      completed_hacktoberfest = 0,
      completion_rate = ZeroPercent,
      avg_contributions_per_contributor = 0,
      stats_unique_repositories = 0,
      contributions_by_type = [],
      stats_created_date = ''2025-09-30T00:00:00''\<rparr>"
proof -
  have h: "contributors (example_tracker\<lparr>contributors := []\<rparr>) = []" by simp
  from get_project_stats_empty [OF h, of example_lib] show ?thesis
    by (simp add: example_tracker_def example_lib_def)
qed

section \<open>Unique usernames\<close>

lemma add_contributor_present:
  assumes "dict_get (contributors t) username = Some existing"
  shows "add_contributor dt n username e t w = (existing, t, w)"
  using assms by (simp add: add_contributor_def)

lemma add_contributor_keys:
  "map fst (contributors (fst (snd (add_contributor dt n username e t w)))) =
     (if username \<in> fst ` set (contributors t) then map fst (contributors t)
      else map fst (contributors t) @ [username])"
proof (cases "dict_get (contributors t) username")
  case None
  then have "username \<notin> fst ` set (contributors t)"
    by (simp add: dict_get_None_iff)
  with None show ?thesis
    by (simp add: add_contributor_def Contributor_def datetime_now_def dict_set_keys Let_def
        split: prod.splits)
next
  case (Some existing)
  then have "username \<in> fst ` set (contributors t)"
    using dict_get_None_iff [of "contributors t" username] by auto
  with Some show ?thesis
    by (simp add: add_contributor_def)
qed

lemma add_contributor_distinct:
  "distinct (map fst (contributors t)) \<Longrightarrow>
   distinct (map fst (contributors (fst (snd (add_contributor dt n username e t w)))))"
  by (simp add: add_contributor_keys)

lemma add_contributor_registers:
  "\<exists>c. dict_get (contributors (fst (snd (add_contributor dt n username e t w)))) username = Some c
       \<and> fst (add_contributor dt n username e t w) = c"
  by (cases "dict_get (contributors t) username")
     (simp_all add: add_contributor_def Contributor_def datetime_now_def dict_get_dict_set
        Let_def split: prod.splits)

lemma add_contributors_distinct:
  "distinct (map fst (contributors t)) \<Longrightarrow>
   distinct (map fst (contributors (fst (add_contributors dt calls t w))))"
proof (induction calls arbitrary: t w)
  case Nil
  then show ?case by simp
next
  case (Cons call calls)
  obtain n username e where call: "call = (n, username, e)"
    by (cases call) auto
  obtain c t' w' where step: "add_contributor dt n username e t w = (c, t', w')"
    by (cases "add_contributor dt n username e t w") auto
  have "distinct (map fst (contributors t'))"
    using add_contributor_distinct [OF Cons.prems, of dt n username e w] step by simp
  then have "distinct (map fst (contributors (fst (add_contributors dt calls t' w'))))"
    by (rule Cons.IH)
  with call step show ?case by simp
qed

lemma load_contributor_distinct:
  "load_contributor dt username contrib_data t w = (Inr t', w') \<Longrightarrow>
   distinct (map fst (contributors t)) \<Longrightarrow> distinct (map fst (contributors t'))"
  by (auto simp: load_contributor_def Contributor_def datetime_now_def dict_set_keys
      split: option.splits prod.splits)

lemma load_contributors_distinct:
  "distinct (map fst (contributors t)) \<Longrightarrow>
   distinct (map fst (contributors (snd (fst (load_contributors dt items t w)))))"
proof (induction items arbitrary: t w)
  case Nil
  then show ?case by simp
next
  case (Cons item items)
  obtain username contrib_data where item: "item = (username, contrib_data)"
    by (cases item) auto
  obtain r w' where step: "load_contributor dt username contrib_data t w = (r, w')"
    by (cases "load_contributor dt username contrib_data t w") auto
  show ?case
  proof (cases r)
    case (Inl e)
    with item step Cons.prems show ?thesis by simp
  next
    case (Inr t')
    with step Cons.prems have "distinct (map fst (contributors t'))"
      by (auto dest: load_contributor_distinct)
    then have "distinct (map fst (contributors (snd (fst (load_contributors dt items t' w')))))"
      by (rule Cons.IH)
    with item step Inr show ?thesis by simp
  qed
qed

lemma load_data_distinct:
  "distinct (map fst (contributors t)) \<Longrightarrow>
   distinct (map fst (contributors (fst (load_data dt t w))))"
proof -
  assume d: "distinct (map fst (contributors t))"
  have doc: "distinct (map fst (contributors (snd (fst (load_document dt data t w)))))" for data
    using d by (auto simp: load_document_def Let_def intro!: load_contributors_distinct
        split: option.splits)
  show ?thesis
  proof (cases "files w (data_file t)")
    case None
    with d show ?thesis by (simp add: load_data_def)
  next
    case (Some content)
    show ?thesis
    proof (cases content)
      case (Doc data)
      obtain r t' w' where ld: "load_document dt data t w = ((r, t'), w')"
        by (cases "load_document dt data t w") auto
      with doc [of data] have "distinct (map fst (contributors t'))" by simp
      with Some Doc ld show ?thesis
        by (simp add: load_data_def split: option.splits)
    qed (use Some d in \<open>simp_all add: load_data_def\<close>)
  qed
qed

lemma ProjectTracker_distinct:
  "distinct (map fst (contributors (fst (ProjectTracker dt pname dfile enable smtp w))))"
  by (simp add: ProjectTracker_def datetime_now_def load_data_distinct)

text \<open>
  C5: usernames are unique and \<^verbatim>\<open>add_contributor\<close> is idempotent. In a collection
  with distinct usernames, a call with a registered username returns the registered
  contributor and changes neither the tracker nor the world; a call keeps the
  usernames distinct; a second call with the same username returns the contributor
  of the first and leaves the tracker alone. After the constructor and any sequence
  of \<^verbatim>\<open>add_contributor\<close> calls the usernames are distinct: each has at most one
  entry.
\<close>

theorem add_contributor_unique_idempotent:
  "(distinct (map fst (contributors t)) \<longrightarrow>
      (\<forall>c0. (username, c0) \<in> set (contributors t) \<longrightarrow>
             add_contributor dt n username e t w = (c0, t, w))
      \<and> distinct (map fst (contributors (fst (snd (add_contributor dt n username e t w)))))
      \<and> distinct (map fst (contributors (fst (add_contributors dt calls t w)))))
   \<and> (add_contributor dt n username e t w = (c, t', w') \<longrightarrow>
        add_contributor dt n2 username e2 t' w2 = (c, t', w2))
   \<and> distinct (map fst (contributors (fst
        (case ProjectTracker dt pname dfile enable smtp w of
           (t0, w0) \<Rightarrow> add_contributors dt calls t0 w0))))
   \<and> (\<forall>u. length (filter (\<lambda>p. fst p = u) (contributors (fst
        (case ProjectTracker dt pname dfile enable smtp w of
           (t0, w0) \<Rightarrow> add_contributors dt calls t0 w0)))) \<le> 1)"
proof -
  have a: "add_contributor dt n username e t w = (c0, t, w)"
    if "distinct (map fst (contributors t))" "(username, c0) \<in> set (contributors t)" for c0
    using that by (simp add: add_contributor_present dict_get_member)
  have b: "add_contributor dt n2 username e2 t' w2 = (c, t', w2)"
    if "add_contributor dt n username e t w = (c, t', w')"
  proof -
    from add_contributor_registers [of dt n username e t w] that
    have "dict_get (contributors t') username = Some c" by simp
    then show ?thesis by (rule add_contributor_present)
  qed
  obtain t0 w0 where init: "ProjectTracker dt pname dfile enable smtp w = (t0, w0)"
    by (cases "ProjectTracker dt pname dfile enable smtp w") auto
  have "distinct (map fst (contributors t0))"
    using ProjectTracker_distinct [of dt pname dfile enable smtp w] init by simp
  then have d: "distinct (map fst (contributors (fst (add_contributors dt calls t0 w0))))"
    by (rule add_contributors_distinct)
  have m: "length (filter (\<lambda>p. fst p = u) (contributors (fst (add_contributors dt calls t0 w0))))
             \<le> 1" for u
    using d by (rule distinct_keys_at_most_one)
  show ?thesis
    using a b d m init
    by (simp add: add_contributor_distinct add_contributors_distinct)
qed

theorem add_contributor_unique_idempotent_witness:
  "distinct (map fst (contributors example_tracker))
   \<and> (''alice'', alice) \<in> set (contributors example_tracker)
   \<and> add_contributor example_lib ''Alice Again'' ''alice'' ''a@example.org'' example_tracker
        example_world = (alice, example_tracker, example_world)
   \<and> map fst (contributors (fst (add_contributors example_lib
        [(''Carol'', ''carol'', ''''), (''Alice Again'', ''alice'', ''''), (''Carol 2'', ''carol'', '''')]
        example_tracker example_world))) = [''alice'', ''bob'', ''carol'']"
proof -
  have h: "distinct (map fst (contributors example_tracker))"
    by (simp add: example_tracker_def)
  have m: "(''alice'', alice) \<in> set (contributors example_tracker)"
    by (simp add: example_tracker_def)
  have r: "map fst (contributors (fst (add_contributors example_lib
        [(''Carol'', ''carol'', ''''), (''Alice Again'', ''alice'', ''''), (''Carol 2'', ''carol'', '''')]
        example_tracker example_world))) = [''alice'', ''bob'', ''carol'']"
    by (simp add: example_tracker_def example_world_def add_contributor_def dict_get_def
        Contributor_def datetime_now_def save_data_def)
  from add_contributor_unique_idempotent
    [of example_tracker "''alice''" example_lib "''Alice Again''" "''a@example.org''" example_world]
    h m r
  show ?thesis by blast
qed

section \<open>The order of the leaderboard\<close>

lemma sorted_reverse_descending: "sorted_wrt (\<ge>) (map f (sorted_reverse f xs))"
proof -
  have "sorted (map f (sort_key f (rev xs)))" by simp
  then have "sorted_wrt (\<lambda>x y. y \<le> x) (rev (map f (sort_key f (rev xs))))"
    by (simp add: sorted_wrt_rev)
  then show ?thesis by (simp add: sorted_reverse_def rev_map)
qed

lemma sorted_reverse_stable:
  "filter (\<lambda>y. f y = k) (sorted_reverse f xs) = filter (\<lambda>y. f y = k) xs"
proof -
  have "filter (\<lambda>y. f y = k) (sorted_reverse f xs)
        = rev (filter (\<lambda>y. f y = k) (sort_key f (rev xs)))"
    by (simp add: sorted_reverse_def rev_filter)
  also have "\<dots> = rev (filter (\<lambda>y. f y = k) (rev xs))"
    by (simp only: sort_key_stable)
  also have "\<dots> = filter (\<lambda>y. f y = k) xs"
    by (simp add: rev_filter)
  finally show ?thesis .
qed

lemma set_sorted_reverse: "set (sorted_reverse f xs) = set xs"
  by (simp add: sorted_reverse_def)

lemma length_sorted_reverse: "length (sorted_reverse f xs) = length xs"
  by (simp add: sorted_reverse_def)

lemma contribution_count_entry:
  "contribution_count (leaderboard_entry_of dt c) = get_contribution_count c"
  by (simp add: leaderboard_entry_of_def split: prod.splits)

text \<open>
  C1, as the code has it: the list returned by \<^verbatim>\<open>get_leaderboard\<close> holds one entry
  for each contributor of the collection, with that contributor's contribution
  count; the counts never increase from the first entry to the last; and the
  entries with the same count stand in the order of their contributors in the
  collection (the sort is stable).
\<close>

theorem get_leaderboard_by_count_stable:
  "sorted_wrt (\<ge>) (map contribution_count (get_leaderboard dt t))
   \<and> (\<forall>k. filter (\<lambda>e. contribution_count e = k) (get_leaderboard dt t)
          = filter (\<lambda>e. contribution_count e = k)
              (map (leaderboard_entry_of dt) (get_all_contributors t)))
   \<and> set (get_leaderboard dt t) = set (map (leaderboard_entry_of dt) (get_all_contributors t))
   \<and> length (get_leaderboard dt t) = length (get_all_contributors t)
   \<and> map contribution_count (map (leaderboard_entry_of dt) (get_all_contributors t))
       = map get_contribution_count (get_all_contributors t)"
  by (simp add: get_leaderboard_def get_all_contributors_def sorted_reverse_descending
      sorted_reverse_stable set_sorted_reverse length_sorted_reverse contribution_count_entry)

lemma example_leaderboard_order:
  "map entry_github_username (get_leaderboard example_lib example_tracker) = [''alice'', ''bob'']"
  by code_simp

lemma example_days:
  "iso_day ''2025-10-01T09:00:00'' = Some 739525"
  "iso_day ''2025-10-02T09:00:00'' = Some 739526"
  "iso_day ''2025-10-03T09:00:00'' = Some 739527"
  by (simp_all add: iso_day_def digit_value_def to_ordinal_def days_in_month_def
      month_lengths_def is_leap_def)

lemma example_streaks: "longest_streak iso_day alice = 1" "longest_streak iso_day bob = 2"
  by (simp_all add: longest_streak_def alice_def bob_def contribution_on_def
      List.map_filter_simps example_days)

lemma example_latest:
  "latest_date alice = Some ''2025-10-03T09:00:00''"
  "latest_date bob = Some ''2025-10-03T09:00:00''"
  by (simp_all add: latest_date_def alice_def bob_def contribution_on_def
      List.map_filter_simps max_def less_eq_char_def)

text \<open>
  In the sample collection alice and bob have two contributions each, both latest on
  3 October; alice's days are not consecutive, bob's are. The leaderboard lists alice
  before bob, and bob's engagement score is the greater one whatever the weights and
  the measure of recency are, as long as the streak has a positive weight.
\<close>

lemma leaderboard_not_by_engagement:
  assumes "0 < weight_streak wts"
  shows "\<not> sorted_wrt (\<ge>)
           (leaderboard_scores wts iso_day recency_of example_lib example_tracker)"
proof -
  have g: "get_contributor example_tracker ''alice'' = Some alice"
          "get_contributor example_tracker ''bob'' = Some bob"
    by (simp_all add: get_contributor_def dict_get_def example_tracker_def)
  have c: "get_contribution_count alice = 2" "get_contribution_count bob = 2"
    by (simp_all add: get_contribution_count_def alice_def bob_def)
  have "map entry_github_username (get_leaderboard example_lib example_tracker)
          = [''alice'', ''bob'']"
    by (rule example_leaderboard_order)
  then obtain e1 e2 where lb: "get_leaderboard example_lib example_tracker = [e1, e2]"
    and n: "entry_github_username e1 = ''alice''" "entry_github_username e2 = ''bob''"
    by (auto simp: map_eq_Cons_conv)
  have "leaderboard_scores wts iso_day recency_of example_lib example_tracker
          = [engagement_score wts iso_day recency_of alice,
             engagement_score wts iso_day recency_of bob]"
    by (simp add: leaderboard_scores_def lb n g)
  moreover have "engagement_score wts iso_day recency_of alice
                   < engagement_score wts iso_day recency_of bob"
    using assms by (simp add: engagement_score_def c example_streaks example_latest)
  ultimately show ?thesis by simp
qed

theorem leaderboard_by_engagement_counterexample:
  "\<not> sorted_wrt (\<ge>)
       (leaderboard_scores example_weights iso_day example_recency example_lib example_tracker)"
  by (rule leaderboard_not_by_engagement) (simp add: example_weights_def)

section \<open>Totals\<close>

lemma dict_set_increment_sum:
  "sum_list (map snd (dict_set k (Suc (get_default (dict_get d k) 0)) d))
     = Suc (sum_list (map snd d))"
  by (induction d) (auto simp: dict_get_def get_default_def)

lemma stats_scan_sum:
  "sum_list (map snd (fst (stats_scan cs by_type unique_repos)))
     = sum_list (map snd by_type) + length cs"
  by (induction cs arbitrary: by_type unique_repos)
     (simp_all add: Let_def dict_set_increment_sum)

lemma stats_scan_all_sum:
  "sum_list (map snd (fst (stats_scan_all cs by_type unique_repos)))
     = sum_list (map snd by_type) + sum_list (map get_contribution_count cs)"
proof (induction cs arbitrary: by_type unique_repos)
  case Nil
  then show ?case by simp
next
  case (Cons c cs)
  obtain by_type' unique_repos'
    where s: "stats_scan (contributions c) by_type unique_repos = (by_type', unique_repos')"
    by (cases "stats_scan (contributions c) by_type unique_repos") auto
  have "sum_list (map snd by_type') = sum_list (map snd by_type) + length (contributions c)"
    using stats_scan_sum [of "contributions c" by_type unique_repos] s by simp
  with Cons.IH [of by_type' unique_repos'] s show ?case
    by (simp add: get_contribution_count_def)
qed

text \<open>
  C4: the \<^verbatim>\<open>total_contributions\<close> of \<^verbatim>\<open>get_project_stats\<close> is the sum, over the
  contributors of the collection, of each contributor's contribution count: the
  number of all contribution records held, which is also what the counts per
  contribution type add up to.
\<close>

theorem total_contributions_is_sum:
  "total_contributions (get_project_stats dt t)
     = sum_list (map get_contribution_count (get_all_contributors t))
   \<and> total_contributions (get_project_stats dt t)
     = (\<Sum>(username, c) \<leftarrow> contributors t. length (contributions c))
   \<and> sum_list (map snd (contributions_by_type (get_project_stats dt t)))
     = total_contributions (get_project_stats dt t)"
proof -
  obtain by_type unique_repos
    where s: "stats_scan_all (get_all_contributors t) [] {} = (by_type, unique_repos)"
    by (cases "stats_scan_all (get_all_contributors t) [] ({}::string set)") auto
  have total: "total_contributions (get_project_stats dt t)
                 = sum_list (map get_contribution_count (get_all_contributors t))"
    by (simp add: get_project_stats_def Let_def split: prod.splits)
  have "map get_contribution_count (get_all_contributors t)
          = map (\<lambda>(username, c). length (contributions c)) (contributors t)"
    by (simp add: get_all_contributors_def dict_values_def get_contribution_count_def
        case_prod_unfold)
  then have pairs: "sum_list (map get_contribution_count (get_all_contributors t))
          = (\<Sum>(username, c) \<leftarrow> contributors t. length (contributions c))"
    by simp
  have "contributions_by_type (get_project_stats dt t) = by_type"
    using s by (simp add: get_project_stats_def Let_def)
  moreover have "sum_list (map snd by_type)
                   = sum_list (map get_contribution_count (get_all_contributors t))"
    using stats_scan_all_sum [of "get_all_contributors t" "[]" "{}"] s by simp
  ultimately show ?thesis using total pairs by simp
qed

section \<open>Saving and loading\<close>

lemma fold_dict_set_fresh:
  "distinct (map fst (acc @ cs)) \<Longrightarrow> fold (\<lambda>(u, c). dict_set u c) cs acc = acc @ cs"
proof (induction cs arbitrary: acc)
  case Nil
  then show ?case by simp
next
  case (Cons p cs)
  obtain u c where p: "p = (u, c)" by (cases p) auto
  from Cons.prems p have "u \<notin> fst ` set acc" by auto
  then have step: "dict_set u c acc = acc @ [(u, c)]" by (rule dict_set_fresh)
  from Cons.prems p have "distinct (map fst ((acc @ [(u, c)]) @ cs))" by simp
  then have "fold (\<lambda>(u, c). dict_set u c) cs (acc @ [(u, c)]) = (acc @ [(u, c)]) @ cs"
    by (rule Cons.IH)
  with p step show ?case by simp
qed

lemma contributor_rebuilt:
  "\<lparr>name = name c, github_username = github_username c, email = email c,
    joined_date = joined_date c, contributions = contributions c\<rparr> = c"
  by (cases c) simp

lemma load_contributor_to_dict:
  assumes "fromisoformat dt (isoformat dt (joined_date c)) = Some (joined_date c)"
  shows "load_contributor dt username (to_dict dt c) t w =
           (Inr (t\<lparr>contributors := dict_set username c (contributors t)\<rparr>),
            w\<lparr>ticks := Suc (ticks w)\<rparr>)"
  using assms
  by (simp add: load_contributor_def to_dict_def Contributor_def datetime_now_def get_default_def
      contributor_rebuilt)

lemma load_contributors_to_dict:
  assumes "\<forall>c \<in> set (dict_values cs).
             fromisoformat dt (isoformat dt (joined_date c)) = Some (joined_date c)"
  shows "load_contributors dt (map (\<lambda>(username, contrib). (username, to_dict dt contrib)) cs) t w =
           ((None, t\<lparr>contributors := fold (\<lambda>(u, c). dict_set u c) cs (contributors t)\<rparr>),
            w\<lparr>ticks := ticks w + length cs\<rparr>)"
  using assms
proof (induction cs arbitrary: t w)
  case Nil
  then show ?case by simp
next
  case (Cons p cs)
  obtain u c where p: "p = (u, c)" by (cases p) auto
  from Cons.prems p
  have c: "fromisoformat dt (isoformat dt (joined_date c)) = Some (joined_date c)"
    and rest: "\<forall>c \<in> set (dict_values cs).
                 fromisoformat dt (isoformat dt (joined_date c)) = Some (joined_date c)"
    by (simp_all add: dict_values_def)
  show ?case
    by (simp add: p load_contributor_to_dict [OF c] Cons.IH [OF rest])
qed

text \<open>
  C2: a contributor collection that is saved and then loaded into a fresh tracker is
  the collection that was saved. The collection is a dictionary (its usernames are
  distinct), the file can be written, and \<^verbatim>\<open>datetime.fromisoformat\<close> reads back
  what \<^verbatim>\<open>isoformat\<close> wrote for the dates of the tracker. The project name and the
  creation date come back as well, and nothing is printed.
\<close>

theorem save_then_load_roundtrip:
  assumes "distinct (map fst (contributors t))"
    and "writable w (data_file t)"
    and "fromisoformat dt (isoformat dt (created_date t)) = Some (created_date t)"
    and "\<forall>c \<in> set (get_all_contributors t).
           fromisoformat dt (isoformat dt (joined_date c)) = Some (joined_date c)"
  shows "contributors (fst (ProjectTracker dt pname (data_file t) enable smtp (save_data dt t w)))
           = contributors t
       \<and> project_name (fst (ProjectTracker dt pname (data_file t) enable smtp (save_data dt t w)))
           = project_name t
       \<and> created_date (fst (ProjectTracker dt pname (data_file t) enable smtp (save_data dt t w)))
           = created_date t
       \<and> console (snd (ProjectTracker dt pname (data_file t) enable smtp (save_data dt t w)))
           = console w"
proof -
  have js: "\<forall>c \<in> set (dict_values (contributors t)).
              fromisoformat dt (isoformat dt (joined_date c)) = Some (joined_date c)"
    using assms(4) by (simp add: get_all_contributors_def)
  have fold_eq: "fold (\<lambda>(u, c). dict_set u c) (contributors t) [] = contributors t"
    using fold_dict_set_fresh [of "[]" "contributors t"] assms(1) by simp
  show ?thesis
    using assms(2,3)
    by (simp add: ProjectTracker_def datetime_now_def save_data_def load_data_def
        load_document_def get_default_def load_contributors_to_dict [OF js] fold_eq)
qed

lemma example_dates_read_back:
  "fromisoformat example_lib (isoformat example_lib ''2025-09-30T00:00:00'')
     = Some ''2025-09-30T00:00:00''"
  "fromisoformat example_lib (isoformat example_lib ''2025-10-01T08:00:00'')
     = Some ''2025-10-01T08:00:00''"
  "fromisoformat example_lib (isoformat example_lib ''2025-10-02T08:00:00'')
     = Some ''2025-10-02T08:00:00''"
  by (simp_all add: example_lib_def iso_day_def digit_value_def days_in_month_def
      month_lengths_def is_leap_def)

theorem save_then_load_roundtrip_witness:
  "distinct (map fst (contributors example_tracker))
   \<and> writable example_world (data_file example_tracker)
   \<and> fromisoformat example_lib (isoformat example_lib (created_date example_tracker))
       = Some (created_date example_tracker)
   \<and> list_all (\<lambda>c. fromisoformat example_lib (isoformat example_lib (joined_date c))
                     = Some (joined_date c)) (get_all_contributors example_tracker)
   \<and> contributors (fst (ProjectTracker example_lib ''Another name'' ''contributors.json'' False
        \<lparr>smtp_server = None, sender_email = None, sender_password = None\<rparr>
        (save_data example_lib example_tracker example_world)))
       = [(''alice'', alice), (''bob'', bob)]"
proof -
  have h1: "distinct (map fst (contributors example_tracker))"
    by (simp add: example_tracker_def)
  have h2: "writable example_world (data_file example_tracker)"
    by (simp add: example_world_def)
  have h3: "fromisoformat example_lib (isoformat example_lib (created_date example_tracker))
              = Some (created_date example_tracker)"
    by (simp add: example_tracker_def example_dates_read_back)
  have h4: "\<forall>c \<in> set (get_all_contributors example_tracker).
              fromisoformat example_lib (isoformat example_lib (joined_date c))
                = Some (joined_date c)"
    by (simp add: example_tracker_def get_all_contributors_def dict_values_def alice_def bob_def
        example_dates_read_back)
  have f: "data_file example_tracker = ''contributors.json''"
          "contributors example_tracker = [(''alice'', alice), (''bob'', bob)]"
    by (simp_all add: example_tracker_def)
  from save_then_load_roundtrip [OF h1 h2 h3 h4, of "''Another name''" False
      "\<lparr>smtp_server = None, sender_email = None, sender_password = None\<rparr>"]
  show ?thesis
    using h1 h2 h3 h4 by (simp add: f list_all_iff)
qed

section \<open>Loading into a collection that has entries\<close>



section \<open>Loading merges\<close>












section \<open>The analytics leave the collection alone\<close>
























end
